theory Spec2Isabelle
  imports Main "HOL-Library.AList" "HOL-Library.Multiset"
begin

section \<open>Python values\<close>

text \<open>
  The attribute values and option values that \<^verbatim>\<open>factory/alchemy.py\<close> inspects are
  only ever tested for truth and compared with \<^verbatim>\<open>==\<close> / \<^verbatim>\<open>!=\<close>. The value universe
  is \<^verbatim>\<open>None\<close>, booleans, (unbounded) integers, strings, and opaque objects that are
  truthy and equal only to themselves (for instance the \<^verbatim>\<open>_sa_instance_state\<close> entry of
  an instance's \<^verbatim>\<open>__dict__\<close>).
\<close>

datatype pyval = PNone | PBool bool | PInt int | PStr string | PObj nat

text \<open>Python's \<^verbatim>\<open>bool(v)\<close>.\<close>

fun truthy :: "pyval \<Rightarrow> bool" where
  "truthy PNone = False"
| "truthy (PBool b) = b"
| "truthy (PInt i) = (i \<noteq> 0)"
| "truthy (PStr s) = (s \<noteq> [])"
| "truthy (PObj _) = True"

text \<open>Python's \<^verbatim>\<open>a == b\<close>; a boolean is the integer 0 or 1.\<close>

fun py_eq :: "pyval \<Rightarrow> pyval \<Rightarrow> bool" where
  "py_eq PNone PNone = True"
| "py_eq (PBool a) (PBool b) = (a = b)"
| "py_eq (PBool a) (PInt j) = ((if a then 1 else 0) = j)"
| "py_eq (PInt i) (PBool b) = (i = (if b then 1 else 0))"
| "py_eq (PInt i) (PInt j) = (i = j)"
| "py_eq (PStr s) (PStr t) = (s = t)"
| "py_eq (PObj m) (PObj n) = (m = n)"
| "py_eq _ _ = False"

text \<open>Python's \<^verbatim>\<open>v in xs\<close> for a list or tuple \<^verbatim>\<open>xs\<close>.\<close>

definition py_in :: "pyval \<Rightarrow> pyval list \<Rightarrow> bool" where
  "py_in v xs = list_ex (\<lambda>x. py_eq v x) xs"

section \<open>Module constants\<close>

definition SESSION_PERSISTENCE_COMMIT :: pyval where
  "SESSION_PERSISTENCE_COMMIT = PStr ''commit''"

definition SESSION_PERSISTENCE_FLUSH :: pyval where
  "SESSION_PERSISTENCE_FLUSH = PStr ''flush''"

definition SESSION_PERSISTENCE_MERGE :: pyval where
  "SESSION_PERSISTENCE_MERGE = PStr ''merge''"

definition SESSION_PERSISTENCE_CHECK_AND_MERGE :: pyval where
  "SESSION_PERSISTENCE_CHECK_AND_MERGE = PStr ''check''"

definition SESSION_PERSISTENCE_GET_OR_ADD :: pyval where
  "SESSION_PERSISTENCE_GET_OR_ADD = PStr ''get''"

definition SESSION_PERSISTENCE_ADD :: pyval where
  "SESSION_PERSISTENCE_ADD = PStr ''add''"

definition VALID_SESSION_PERSISTENCE_TYPES :: "pyval list" where
  "VALID_SESSION_PERSISTENCE_TYPES =
     [PNone,
      SESSION_PERSISTENCE_COMMIT,
      SESSION_PERSISTENCE_FLUSH,
      SESSION_PERSISTENCE_MERGE,
      SESSION_PERSISTENCE_CHECK_AND_MERGE,
      SESSION_PERSISTENCE_GET_OR_ADD,
      SESSION_PERSISTENCE_ADD]"

section \<open>Errors\<close>

text \<open>
  The exceptions of a run: the two the module raises itself, and any other exception
  (by its name and message) that the model constructor may raise.
\<close>

datatype error = TypeError string | RuntimeError string | OtherError string string

section \<open>SQLAlchemyOptions: the persistence-mode checker\<close>

text \<open>
  \<^verbatim>\<open>"%s" % xs\<close> for a list: the \<^verbatim>\<open>repr\<close> of every element, separated by a comma and a
  space, in square brackets. \<^verbatim>\<open>repr\<close> is Python's builtin and is a parameter here.
\<close>

fun join_reprs :: "(pyval \<Rightarrow> string) \<Rightarrow> pyval list \<Rightarrow> string" where
  "join_reprs repr [] = []"
| "join_reprs repr [x] = repr x"
| "join_reprs repr (x # y # ys) = repr x @ '', '' @ join_reprs repr (y # ys)"

definition str_list :: "(pyval \<Rightarrow> string) \<Rightarrow> pyval list \<Rightarrow> string" where
  "str_list repr xs = ''['' @ join_reprs repr xs @ '']''"

text \<open>
  \<^verbatim>\<open>_check_sqlalchemy_session_persistence(self, meta, value)\<close>; \<open>meta\<close> is \<^verbatim>\<open>str(meta)\<close>.
  It returns nothing, or raises the \<^verbatim>\<open>TypeError\<close>.
\<close>

definition check_sqlalchemy_session_persistence ::
  "(pyval \<Rightarrow> string) \<Rightarrow> string \<Rightarrow> pyval \<Rightarrow> error + unit" where
  "check_sqlalchemy_session_persistence repr meta v =
     (if \<not> py_in v VALID_SESSION_PERSISTENCE_TYPES then
        Inl (TypeError
          (meta @ ''.sqlalchemy_session_persistence must be one of ''
             @ str_list repr VALID_SESSION_PERSISTENCE_TYPES @ '', got '' @ repr v))
      else Inr ())"

section \<open>Objects, the session and the model class\<close>

text \<open>
  A model instance is a reference into a store; the store gives every object its
  \<^verbatim>\<open>__dict__\<close>, an association list in insertion order. What lies behind the session (its
  identity map, the database) is the abstract component \<open>db\<close>.
\<close>

type_synonym ref = nat
type_synonym attrs = "(string \<times> pyval) list"

record 'db world =
  heap :: "ref \<Rightarrow> attrs"
  db :: 'db

text \<open>\<^verbatim>\<open>getattr(obj, k, None)\<close> and \<^verbatim>\<open>setattr(obj, k, v)\<close> on instance state.\<close>

definition getattr :: "'db world \<Rightarrow> ref \<Rightarrow> string \<Rightarrow> pyval" where
  "getattr w r k = (case map_of (heap w r) k of Some v \<Rightarrow> v | None \<Rightarrow> PNone)"

definition setattr :: "'db world \<Rightarrow> ref \<Rightarrow> string \<Rightarrow> pyval \<Rightarrow> 'db world" where
  "setattr w r k v = w\<lparr>heap := (heap w)(r := AList.update k v (heap w r))\<rparr>"

text \<open>
  The session is a collaborator: its five operations are taken as they come, as
  functions on the world. \<open>query_first c k v\<close> is
  \<^verbatim>\<open>session.query(model_cls).filter(model_cls.k == v).first()\<close> for the class named \<open>c\<close>;
  a row is truthy, no row is \<^verbatim>\<open>None\<close>. A session operation is taken to return: an
  exception raised inside it would pass through the factory unchanged, and is not
  followed here.
\<close>

record 'db session =
  query_first :: "string \<Rightarrow> string \<Rightarrow> pyval \<Rightarrow> 'db world \<Rightarrow> ref option \<times> 'db world"
  merge :: "ref \<Rightarrow> 'db world \<Rightarrow> ref \<times> 'db world"
  flush :: "'db world \<Rightarrow> 'db world"
  commit :: "'db world \<Rightarrow> 'db world"
  add :: "ref \<Rightarrow> 'db world \<Rightarrow> 'db world"

text \<open>
  A constraint of the table, with the keys of its columns in declared order; only a
  \<^verbatim>\<open>UniqueConstraint\<close> passes the \<^verbatim>\<open>isinstance\<close> test.
\<close>

datatype constraint =
  UniqueConstraint (columns: "string list")
| OtherConstraint (columns: "string list")

text \<open>
  A model class.
  \<^item> \<open>declared_constraints\<close>: the constraints of its table in the order in which the
    schema declares them.
  \<^item> \<open>table_constraints\<close>: the members of \<^verbatim>\<open>model_cls.__table__.constraints\<close> in the order
    in which iterating over it gives them. That collection is a set, so this order is
    the runtime's choice and need not be the declared one; the two lists have the same
    members (\<open>wf_model_class\<close>).
  \<^item> \<open>class_attrs\<close>: the names under which \<^verbatim>\<open>getattr(model_cls, name, None)\<close> gives a
    queryable attribute (an object, hence truthy); any other name gives \<^verbatim>\<open>None\<close>.
  \<^item> \<open>construct\<close>: the constructor \<^verbatim>\<open>model_class(*args, **kwargs)\<close>; it gives the new
    object or raises, and the world it leaves.
\<close>

record 'db model_class =
  cls_name :: string
  declared_constraints :: "constraint list"
  table_constraints :: "constraint list"
  class_attrs :: "string list"
  construct :: "pyval list \<Rightarrow> attrs \<Rightarrow> 'db world \<Rightarrow> (error + ref) \<times> 'db world"

definition wf_model_class :: "'db model_class \<Rightarrow> bool" where
  "wf_model_class model_cls =
     (mset (table_constraints model_cls) = mset (declared_constraints model_cls))"

text \<open>The resolved options, \<^verbatim>\<open>cls._meta\<close>.\<close>

record 'db options =
  sqlalchemy_session :: "'db session option"
  sqlalchemy_session_persistence :: pyval
  force_flush :: bool
  sqlalchemy_update_existing :: bool

text \<open>
  Every call of a collaborator is recorded, in order: the state of a run is the world
  together with the list of calls made so far.
\<close>

datatype event =
  Construct
| Query string pyval
| Merge ref
| Flush
| Commit
| Add ref

type_synonym 'db state = "'db world \<times> event list"

definition session_merge :: "'db session \<Rightarrow> ref \<Rightarrow> 'db state \<Rightarrow> ref \<times> 'db state" where
  "session_merge session r st =
     (case merge session r (fst st) of (r', w') \<Rightarrow> (r', (w', snd st @ [Merge r])))"

definition session_flush :: "'db session \<Rightarrow> 'db state \<Rightarrow> 'db state" where
  "session_flush session st = (flush session (fst st), snd st @ [Flush])"

definition session_commit :: "'db session \<Rightarrow> 'db state \<Rightarrow> 'db state" where
  "session_commit session st = (commit session (fst st), snd st @ [Commit])"

definition session_add :: "'db session \<Rightarrow> ref \<Rightarrow> 'db state \<Rightarrow> 'db state" where
  "session_add session r st = (add session r (fst st), snd st @ [Add r])"

section \<open>attr\_dict\<close>

definition startswith :: "string \<Rightarrow> string \<Rightarrow> bool" where
  "startswith k p = (take (length p) k = p)"

definition attr_dict :: "attrs \<Rightarrow> attrs" where
  "attr_dict d = filter (\<lambda>(k, v). \<not> startswith k ''_sa'') d"

section \<open>SQLAlchemyModelFactory.find\_existing\<close>

text \<open>The inner loop, over the columns of one constraint.\<close>

fun find_in_columns ::
  "'db session \<Rightarrow> ref \<Rightarrow> 'db model_class \<Rightarrow> string list \<Rightarrow> 'db state \<Rightarrow> ref option \<times> 'db state"
where
  "find_in_columns session obj model_cls [] st = (None, st)"
| "find_in_columns session obj model_cls (col # cols) st =
     (let attr = getattr (fst st) obj col in
      if truthy attr then
        if col \<in> set (class_attrs model_cls) then
          (case query_first session (cls_name model_cls) col attr (fst st) of
             (Some existing, w') \<Rightarrow> (Some existing, (w', snd st @ [Query col attr]))
           | (None, w') \<Rightarrow>
               find_in_columns session obj model_cls cols (w', snd st @ [Query col attr]))
        else find_in_columns session obj model_cls cols st
      else find_in_columns session obj model_cls cols st)"

text \<open>The outer loop, over the constraints.\<close>

fun find_in_constraints ::
  "'db session \<Rightarrow> ref \<Rightarrow> 'db model_class \<Rightarrow> constraint list \<Rightarrow> 'db state
     \<Rightarrow> ref option \<times> 'db state"
where
  "find_in_constraints session obj model_cls [] st = (None, st)"
| "find_in_constraints session obj model_cls (const # rest) st =
     (case find_in_columns session obj model_cls (columns const) st of
        (Some existing, st') \<Rightarrow> (Some existing, st')
      | (None, st') \<Rightarrow> find_in_constraints session obj model_cls rest st')"

definition find_existing ::
  "'db session \<Rightarrow> ref \<Rightarrow> 'db model_class \<Rightarrow> 'db state \<Rightarrow> ref option \<times> 'db state" where
  "find_existing session obj model_cls st =
     (let constraints = filter is_UniqueConstraint (table_constraints model_cls)
      in find_in_constraints session obj model_cls constraints st)"

section \<open>SQLAlchemyModelFactory.update\_existing\<close>

text \<open>The loop over the items of \<^verbatim>\<open>attr_dict(existing)\<close>, a copy taken before it starts.\<close>

fun update_items :: "ref \<Rightarrow> ref \<Rightarrow> attrs \<Rightarrow> 'db world \<Rightarrow> 'db world" where
  "update_items obj existing [] w = w"
| "update_items obj existing ((k, v) # items) w =
     (let obj_attr = getattr w obj k in
      if truthy obj_attr \<and> \<not> py_eq obj_attr v then
        update_items obj existing items (setattr w existing k obj_attr)
      else update_items obj existing items w)"

definition update_existing ::
  "'db session \<Rightarrow> ref \<Rightarrow> ref \<Rightarrow> 'db state \<Rightarrow> ref \<times> 'db state" where
  "update_existing session obj existing st =
     (existing,
      (update_items obj existing (attr_dict (heap (fst st) existing)) (fst st), snd st))"

section \<open>SQLAlchemyModelFactory.\_create\<close>

text \<open>
  The statements of \<^verbatim>\<open>_create\<close> in the order of the source: the options are read and
  \<^verbatim>\<open>force_flush\<close> overrides the mode, the instance is constructed (an exception of
  the constructor ends the run there), the missing session raises, and the chain of \<^verbatim>\<open>if\<close>/\<^verbatim>\<open>elif\<close> dispatches on the mode. The result is the
  raised error or the returned object, with the state the run ends in.
\<close>

definition create ::
  "'db options \<Rightarrow> 'db model_class \<Rightarrow> pyval list \<Rightarrow> attrs \<Rightarrow> 'db state
     \<Rightarrow> (error + ref) \<times> 'db state" where
  "create meta model_class args kwargs st =
     (let session = sqlalchemy_session meta;
          session_persistence =
            (if force_flush meta then SESSION_PERSISTENCE_FLUSH
             else sqlalchemy_session_persistence meta)
      in case construct model_class args kwargs (fst st) of
           (Inl e, w1) \<Rightarrow> (Inl e, (w1, snd st @ [Construct]))
         | (Inr obj, w1) \<Rightarrow>
         (let st1 = (w1, snd st @ [Construct]) in
         (case session of
           None \<Rightarrow> (Inl (RuntimeError ''No session provided.''), st1)
         | Some session \<Rightarrow>
             if py_eq session_persistence SESSION_PERSISTENCE_MERGE then
               (case session_merge session obj st1 of (obj', st2) \<Rightarrow>
                  (Inr obj', session_commit session st2))
             else if py_in session_persistence
                       [PStr ''check'', SESSION_PERSISTENCE_CHECK_AND_MERGE] then
               (case find_existing session obj model_class st1 of
                  (Some existing, st2) \<Rightarrow>
                    if sqlalchemy_update_existing meta then
                      (case update_existing session obj existing st2 of (existing1, st3) \<Rightarrow>
                         (case session_merge session existing1 st3 of (existing2, st4) \<Rightarrow>
                            (Inr existing2, session_flush session st4)))
                    else (Inr existing, st2)
                | (None, st2) \<Rightarrow>
                    (case session_merge session obj st2 of (obj', st3) \<Rightarrow>
                       (Inr obj', session_flush session st3)))
             else if py_eq session_persistence SESSION_PERSISTENCE_GET_OR_ADD then
               (case find_existing session obj model_class st1 of
                  (Some existing, st2) \<Rightarrow>
                    (case session_merge session existing st2 of (_, st3) \<Rightarrow>
                       (Inr existing, st3))
                | (None, st2) \<Rightarrow>
                    (Inr obj, session_commit session (session_add session obj st2)))
             else if py_eq session_persistence SESSION_PERSISTENCE_FLUSH then
               (Inr obj, session_flush session st1)
             else if py_eq session_persistence SESSION_PERSISTENCE_COMMIT then
               (Inr obj, session_commit session st1)
             else if py_eq session_persistence SESSION_PERSISTENCE_ADD then
               (Inr obj, session_add session obj st1)
             else (Inr obj, st1))))"

section \<open>The specification's reading of the operations\<close>

text \<open>
  The trace of a run, restricted to the session's calls (everything but the
  constructor), and to the calls that write (everything but the constructor and the
  queries).
\<close>

fun is_session_call :: "event \<Rightarrow> bool" where
  "is_session_call Construct = False"
| "is_session_call _ = True"

fun is_write :: "event \<Rightarrow> bool" where
  "is_write Construct = False"
| "is_write (Query _ _) = False"
| "is_write _ = True"

definition session_calls :: "event list \<Rightarrow> event list" where
  "session_calls tr = filter is_session_call tr"

definition writes :: "event list \<Rightarrow> event list" where
  "writes tr = filter is_write tr"

text \<open>
  The deduplication lookup as the specification words it: one scan over a list of
  columns (those of all unique constraints, constraint after constraint and column
  after column, in the order \<^verbatim>\<open>__table__.constraints\<close> is iterated); a
  column is skipped when the candidate's value for it is falsy or the class has no such
  attribute; the first query that gives a row ends the scan.
\<close>

definition unique_columns :: "'db model_class \<Rightarrow> string list" where
  "unique_columns model_cls =
     concat (map columns (filter is_UniqueConstraint (table_constraints model_cls)))"

text \<open>The same columns in schema-declaration order.\<close>

definition declared_unique_columns :: "'db model_class \<Rightarrow> string list" where
  "declared_unique_columns model_cls =
     concat (map columns (filter is_UniqueConstraint (declared_constraints model_cls)))"

fun first_hit ::
  "'db session \<Rightarrow> ref \<Rightarrow> 'db model_class \<Rightarrow> string list \<Rightarrow> 'db state \<Rightarrow> ref option \<times> 'db state"
where
  "first_hit session obj model_cls [] st = (None, st)"
| "first_hit session obj model_cls (col # cols) st =
     (let v = getattr (fst st) obj col in
      if \<not> truthy v \<or> col \<notin> set (class_attrs model_cls) then
        first_hit session obj model_cls cols st
      else
        (case query_first session (cls_name model_cls) col v (fst st) of (hit, w') \<Rightarrow>
           if hit = None then first_hit session obj model_cls cols (w', snd st @ [Query col v])
           else (hit, (w', snd st @ [Query col v]))))"

text \<open>
  The columns of a scan that are not skipped, and the test that the query for a column
  gives no row, both read in one world \<open>w\<close>.
\<close>

definition eligible :: "'db world \<Rightarrow> ref \<Rightarrow> 'db model_class \<Rightarrow> string list \<Rightarrow> string list" where
  "eligible w obj model_cls cols =
     filter (\<lambda>c. truthy (getattr w obj c) \<and> c \<in> set (class_attrs model_cls)) cols"

definition misses :: "'db session \<Rightarrow> 'db world \<Rightarrow> ref \<Rightarrow> 'db model_class \<Rightarrow> string \<Rightarrow> bool" where
  "misses session w obj model_cls c =
     (fst (query_first session (cls_name model_cls) c (getattr w obj c) w) = None)"

text \<open>
  \<^verbatim>\<open>_create\<close> with the test of the check-and-merge branch written as one comparison,
  \<^verbatim>\<open>session_persistence == 'check'\<close>; everything else is as in \<open>create\<close>.
\<close>

definition create_by_equality ::
  "'db options \<Rightarrow> 'db model_class \<Rightarrow> pyval list \<Rightarrow> attrs \<Rightarrow> 'db state
     \<Rightarrow> (error + ref) \<times> 'db state" where
  "create_by_equality meta model_class args kwargs st =
     (let session = sqlalchemy_session meta;
          session_persistence =
            (if force_flush meta then SESSION_PERSISTENCE_FLUSH
             else sqlalchemy_session_persistence meta)
      in case construct model_class args kwargs (fst st) of
           (Inl e, w1) \<Rightarrow> (Inl e, (w1, snd st @ [Construct]))
         | (Inr obj, w1) \<Rightarrow>
         (let st1 = (w1, snd st @ [Construct]) in
         (case session of
           None \<Rightarrow> (Inl (RuntimeError ''No session provided.''), st1)
         | Some session \<Rightarrow>
             if py_eq session_persistence SESSION_PERSISTENCE_MERGE then
               (case session_merge session obj st1 of (obj', st2) \<Rightarrow>
                  (Inr obj', session_commit session st2))
             else if py_eq session_persistence (PStr ''check'') then
               (case find_existing session obj model_class st1 of
                  (Some existing, st2) \<Rightarrow>
                    if sqlalchemy_update_existing meta then
                      (case update_existing session obj existing st2 of (existing1, st3) \<Rightarrow>
                         (case session_merge session existing1 st3 of (existing2, st4) \<Rightarrow>
                            (Inr existing2, session_flush session st4)))
                    else (Inr existing, st2)
                | (None, st2) \<Rightarrow>
                    (case session_merge session obj st2 of (obj', st3) \<Rightarrow>
                       (Inr obj', session_flush session st3)))
             else if py_eq session_persistence SESSION_PERSISTENCE_GET_OR_ADD then
               (case find_existing session obj model_class st1 of
                  (Some existing, st2) \<Rightarrow>
                    (case session_merge session existing st2 of (_, st3) \<Rightarrow>
                       (Inr existing, st3))
                | (None, st2) \<Rightarrow>
                    (Inr obj, session_commit session (session_add session obj st2)))
             else if py_eq session_persistence SESSION_PERSISTENCE_FLUSH then
               (Inr obj, session_flush session st1)
             else if py_eq session_persistence SESSION_PERSISTENCE_COMMIT then
               (Inr obj, session_commit session st1)
             else if py_eq session_persistence SESSION_PERSISTENCE_ADD then
               (Inr obj, session_add session obj st1)
             else (Inr obj, st1))))"

section \<open>An example: Person(name, email), unique on email\<close>

text \<open>
  The scenario of the specification, used to run the operations on concrete inputs.
  The example session keeps the list of tracked rows and the next free reference; a
  query gives the first tracked row whose attribute equals the value; merging tracks
  the object if it is not tracked yet and gives it back; adding tracks it; flush and
  commit change nothing that is visible here. The constructor takes keyword arguments
  only and stores them as the new object's attributes; with a positional argument it
  raises a type error.
\<close>

type_synonym example_db = "ref list \<times> nat"

definition track :: "ref \<Rightarrow> example_db world \<Rightarrow> example_db world" where
  "track r w = w\<lparr>db := (fst (db w) @ [r], snd (db w))\<rparr>"

definition example_session :: "example_db session" where
  "example_session =
     \<lparr>query_first = (\<lambda>c k v w. (find (\<lambda>r. py_eq (getattr w r k) v) (fst (db w)), w)),
      merge = (\<lambda>r w. (r, if r \<in> set (fst (db w)) then w else track r w)),
      flush = (\<lambda>w. w),
      commit = (\<lambda>w. w),
      add = track\<rparr>"

definition Person :: "example_db model_class" where
  "Person =
     \<lparr>cls_name = ''Person'',
      declared_constraints = [OtherConstraint [''id''], UniqueConstraint [''email'']],
      table_constraints = [UniqueConstraint [''email''], OtherConstraint [''id'']],
      class_attrs = [''id'', ''name'', ''email''],
      construct = (\<lambda>args kwargs w.
        if args \<noteq> [] then
          (Inl (TypeError ''__init__() takes 1 positional argument but 2 were given''), w)
        else
          (Inr (snd (db w)),
           w\<lparr>heap := (heap w)(snd (db w) := kwargs),
              db := (fst (db w), Suc (snd (db w)))\<rparr>))\<rparr>"

text \<open>
  Account(nick, name, email): unique on (nick, name) and, declared after it, on email;
  iterating over the set of its constraints gives the one on email first.
\<close>

definition Account :: "example_db model_class" where
  "Account =
     Person\<lparr>cls_name := ''Account'',
            declared_constraints :=
              [OtherConstraint [''id''], UniqueConstraint [''nick'', ''name''],
               UniqueConstraint [''email'']],
            table_constraints :=
              [UniqueConstraint [''email''], OtherConstraint [''id''],
               UniqueConstraint [''nick'', ''name'']],
            class_attrs := [''id'', ''nick'', ''name'', ''email'']\<rparr>"

text \<open>A world with no rows, and one where a first Person has been persisted as row 0.\<close>

definition empty_world :: "example_db world" where
  "empty_world = \<lparr>heap = (\<lambda>_. []), db = ([], 0)\<rparr>"

definition ann_world :: "example_db world" where
  "ann_world =
     \<lparr>heap = (\<lambda>_. [])(0 :=
        [(''_sa_instance_state'', PObj 0), (''name'', PStr ''Ann''),
         (''email'', PStr ''a@x.com''), (''nick'', PStr ''annie'')]),
      db = ([0], 1)\<rparr>"

text \<open>A world with two rows, Ann and Bob, and a candidate that shares a value with each.\<close>

definition two_rows_world :: "example_db world" where
  "two_rows_world =
     \<lparr>heap = (\<lambda>_. [])
        (0 := [(''_sa_instance_state'', PObj 0), (''nick'', PStr ''annie''),
               (''name'', PStr ''Ann''), (''email'', PStr ''a@x.com'')],
         1 := [(''_sa_instance_state'', PObj 1), (''nick'', PStr ''bobby''),
               (''name'', PStr ''Bob''), (''email'', PStr ''b@x.com'')]),
      db = ([0, 1], 2)\<rparr>"

definition candidate_kwargs :: "string \<Rightarrow> attrs" where
  "candidate_kwargs email =
     [(''_sa_instance_state'', PObj 2), (''nick'', PStr []),
      (''name'', PStr ''Bob''), (''email'', PStr email)]"

text \<open>
  A world where Ann's row has an attribute \<^verbatim>\<open>_salary\<close>, and a new instance with another
  salary.
\<close>

definition salary_world :: "example_db world" where
  "salary_world =
     \<lparr>heap = (\<lambda>_. [])(0 :=
        [(''_sa_instance_state'', PObj 0), (''name'', PStr ''Ann''),
         (''email'', PStr ''a@x.com''), (''_salary'', PInt 100)]),
      db = ([0], 1)\<rparr>"

definition salary_kwargs :: attrs where
  "salary_kwargs =
     [(''_sa_instance_state'', PObj 1), (''name'', PStr ''Ann''),
      (''email'', PStr ''a@x.com''), (''_salary'', PInt 200)]"

definition bob_kwargs :: attrs where
  "bob_kwargs =
     [(''_sa_instance_state'', PObj 1), (''name'', PStr ''Bob''),
      (''email'', PStr ''a@x.com''), (''nick'', PStr [])]"

definition example_meta :: "pyval \<Rightarrow> bool \<Rightarrow> example_db options" where
  "example_meta mode upd =
     \<lparr>sqlalchemy_session = Some example_session,
      sqlalchemy_session_persistence = mode,
      force_flush = False,
      sqlalchemy_update_existing = upd\<rparr>"

definition no_session_meta :: "pyval \<Rightarrow> example_db options" where
  "no_session_meta mode =
     \<lparr>sqlalchemy_session = None,
      sqlalchemy_session_persistence = mode,
      force_flush = False,
      sqlalchemy_update_existing = False\<rparr>"

text \<open>A stand-in for Python's \<^verbatim>\<open>repr\<close> on the values that occur in the examples.\<close>

fun example_repr :: "pyval \<Rightarrow> string" where
  "example_repr PNone = ''None''"
| "example_repr (PBool b) = (if b then ''True'' else ''False'')"
| "example_repr (PStr s) = [CHR 0x27] @ s @ [CHR 0x27]"
| "example_repr _ = ''<object>''"

section \<open>Properties of the lookup\<close>

lemma find_in_columns_first_hit:
  "find_in_columns session obj model_cls cols st = first_hit session obj model_cls cols st"
proof (induction cols arbitrary: st)
  case Nil
  show ?case by simp
next
  case (Cons col cols)
  show ?case
    by (cases "query_first session (cls_name model_cls) col (getattr (fst st) obj col) (fst st)")
       (auto simp: Let_def Cons.IH split: option.splits)
qed

lemma first_hit_append:
  "first_hit session obj model_cls (xs @ ys) st =
     (case first_hit session obj model_cls xs st of
        (Some existing, st') \<Rightarrow> (Some existing, st')
      | (None, st') \<Rightarrow> first_hit session obj model_cls ys st')"
proof (induction xs arbitrary: st)
  case Nil
  show ?case by simp
next
  case (Cons col cols)
  show ?case
    by (cases "query_first session (cls_name model_cls) col (getattr (fst st) obj col) (fst st)")
       (auto simp: Let_def Cons.IH split: option.splits)
qed

lemma find_in_constraints_first_hit:
  "find_in_constraints session obj model_cls cs st =
     first_hit session obj model_cls (concat (map columns cs)) st"
proof (induction cs arbitrary: st)
  case Nil
  show ?case by simp
next
  case (Cons c cs1)
  show ?case
    by (simp add: first_hit_append find_in_columns_first_hit Cons.IH split: prod.splits option.splits)
qed

lemma first_hit_trace:
  "\<exists>qs. snd (snd (first_hit session obj model_cls cols st)) = snd st @ qs \<and>
        filter is_write qs = [] \<and> filter is_session_call qs = qs"
proof (induction cols arbitrary: st)
  case Nil
  show ?case by simp
next
  case (Cons col cols)
  obtain hit w' where q:
    "query_first session (cls_name model_cls) col (getattr (fst st) obj col) (fst st) = (hit, w')"
    by (cases "query_first session (cls_name model_cls) col (getattr (fst st) obj col) (fst st)")
  from Cons.IH [of "(w', snd st @ [Query col (getattr (fst st) obj col)])"]
  obtain qs where qs:
    "snd (snd (first_hit session obj model_cls cols (w', snd st @ [Query col (getattr (fst st) obj col)])))
       = (snd st @ [Query col (getattr (fst st) obj col)]) @ qs"
    "filter is_write qs = []" "filter is_session_call qs = qs"
    by auto
  show ?case
  proof (cases "\<not> truthy (getattr (fst st) obj col) \<or> col \<notin> set (class_attrs model_cls)")
    case True
    then show ?thesis using Cons.IH [of st] by (simp add: Let_def)
  next
    case False
    show ?thesis
    proof (cases hit)
      case None
      have "snd (snd (first_hit session obj model_cls (col # cols) st)) =
              snd st @ (Query col (getattr (fst st) obj col) # qs)"
        using False None q qs(1) by (simp add: Let_def)
      moreover have "filter is_write (Query col (getattr (fst st) obj col) # qs) = []"
        using qs(2) by simp
      moreover have "filter is_session_call (Query col (getattr (fst st) obj col) # qs)
                       = Query col (getattr (fst st) obj col) # qs"
        using qs(3) by simp
      ultimately show ?thesis by blast
    next
      case (Some e)
      have "snd (snd (first_hit session obj model_cls (col # cols) st)) =
              snd st @ [Query col (getattr (fst st) obj col)]"
        using False Some q by (simp add: Let_def)
      moreover have "filter is_write [Query col (getattr (fst st) obj col)] = []" by simp
      moreover have "filter is_session_call [Query col (getattr (fst st) obj col)]
                       = [Query col (getattr (fst st) obj col)]" by simp
      ultimately show ?thesis by blast
    qed
  qed
qed

lemma find_existing_writes:
  "find_existing session obj model_cls st = (r, st') \<Longrightarrow> writes (snd st') = writes (snd st)"
  using first_hit_trace [of session obj model_cls "unique_columns model_cls" st]
  by (auto simp: find_existing_def unique_columns_def find_in_constraints_first_hit writes_def)

lemma first_hit_read_only:
  assumes ro: "\<And>c k v w. snd (query_first session c k v w) = w"
  shows "first_hit session obj model_cls cols (w, tr) =
     (case dropWhile (misses session w obj model_cls) (eligible w obj model_cls cols) of
        [] \<Rightarrow>
          (None, (w, tr @ map (\<lambda>c. Query c (getattr w obj c)) (eligible w obj model_cls cols)))
      | c # _ \<Rightarrow>
          (fst (query_first session (cls_name model_cls) c (getattr w obj c) w),
           (w, tr @ map (\<lambda>c. Query c (getattr w obj c))
                     (takeWhile (misses session w obj model_cls) (eligible w obj model_cls cols)
                        @ [c]))))"
proof (induction cols arbitrary: tr)
  case Nil
  show ?case by (simp add: eligible_def)
next
  case (Cons col cols)
  obtain hit w' where q:
    "query_first session (cls_name model_cls) col (getattr w obj col) w = (hit, w')"
    by (cases "query_first session (cls_name model_cls) col (getattr w obj col) w")
  have w': "w' = w" using ro [of "cls_name model_cls" col "getattr w obj col" w] q by simp
  show ?case
  proof (cases "truthy (getattr w obj col) \<and> col \<in> set (class_attrs model_cls)")
    case False
    then have e: "eligible w obj model_cls (col # cols) = eligible w obj model_cls cols"
      by (auto simp: eligible_def)
    have fh: "first_hit session obj model_cls (col # cols) (w, tr) =
            first_hit session obj model_cls cols (w, tr)"
      using False by (auto simp: Let_def)
    show ?thesis unfolding fh e Cons.IH ..
  next
    case True
    then have e: "eligible w obj model_cls (col # cols) = col # eligible w obj model_cls cols"
      by (simp add: eligible_def)
    show ?thesis
    proof (cases hit)
      case None
      then have m: "misses session w obj model_cls col" using q by (simp add: misses_def)
      have fh: "first_hit session obj model_cls (col # cols) (w, tr) =
              first_hit session obj model_cls cols (w, tr @ [Query col (getattr w obj col)])"
        using True None q w' by (simp add: Let_def)
      have dw: "dropWhile (misses session w obj model_cls) (col # eligible w obj model_cls cols)
                  = dropWhile (misses session w obj model_cls) (eligible w obj model_cls cols)"
        and tw: "takeWhile (misses session w obj model_cls) (col # eligible w obj model_cls cols)
                  = col # takeWhile (misses session w obj model_cls) (eligible w obj model_cls cols)"
        using m by simp_all
      note IH = Cons.IH
      show ?thesis
      proof (cases "dropWhile (misses session w obj model_cls) (eligible w obj model_cls cols)")
        case Nil
        show ?thesis unfolding fh e dw tw IH Nil by simp
      next
        case (Cons c cs)
        show ?thesis unfolding fh e dw tw IH Cons by simp
      qed
    next
      case (Some r)
      then have m: "\<not> misses session w obj model_cls col" using q by (simp add: misses_def)
      have fh: "first_hit session obj model_cls (col # cols) (w, tr) =
              (Some r, (w, tr @ [Query col (getattr w obj col)]))"
        using True Some q w' by (simp add: Let_def)
      have dw: "dropWhile (misses session w obj model_cls) (col # eligible w obj model_cls cols)
                  = col # eligible w obj model_cls cols"
        and tw: "takeWhile (misses session w obj model_cls) (col # eligible w obj model_cls cols)
                  = []"
        using m by simp_all
      show ?thesis unfolding fh e dw tw using Some q by simp
    qed
  qed
qed

lemma mset_eq_short:
  "mset xs = mset ys \<Longrightarrow> length xs \<le> 1 \<Longrightarrow> xs = ys"
proof (cases xs)
  case Nil
  assume "mset xs = mset ys"
  with Nil show ?thesis by simp
next
  case (Cons x xs')
  assume m: "mset xs = mset ys" and l: "length xs \<le> 1"
  from l Cons have xs: "xs = [x]" by simp
  with m have "mset ys = {#x#}" by simp
  then have "ys = [x]" by (simp add: mset_single_iff_right)
  with xs show ?thesis by simp
qed

lemma unique_columns_declared:
  assumes "wf_model_class model_cls"
    and "length (filter is_UniqueConstraint (declared_constraints model_cls)) \<le> 1"
  shows "unique_columns model_cls = declared_unique_columns model_cls"
proof -
  have "mset (filter is_UniqueConstraint (declared_constraints model_cls)) =
        mset (filter is_UniqueConstraint (table_constraints model_cls))"
    using assms(1) by (simp add: wf_model_class_def)
  then have "filter is_UniqueConstraint (declared_constraints model_cls) =
             filter is_UniqueConstraint (table_constraints model_cls)"
    using assms(2) by (rule mset_eq_short)
  then show ?thesis by (simp add: unique_columns_def declared_unique_columns_def)
qed

section \<open>Properties of the field merge\<close>

lemma getattr_setattr:
  "getattr (setattr w r k v) r' k' = (if r' = r \<and> k' = k then v else getattr w r' k')"
  by (simp add: getattr_def setattr_def AList.update_conv')

lemma heap_setattr_other: "r' \<noteq> r \<Longrightarrow> heap (setattr w r k v) r' = heap w r'"
  by (simp add: setattr_def)

lemma db_setattr: "db (setattr w r k v) = db w"
  by (simp add: setattr_def)

lemma keys_setattr:
  "k \<in> fst ` set (heap w r) \<Longrightarrow> map fst (heap (setattr w r k v) r) = map fst (heap w r)"
  by (simp add: setattr_def AList.update_keys)

lemma update_items_frame:
  "fst ` set items \<subseteq> fst ` set (heap w existing) \<Longrightarrow>
   db (update_items obj existing items w) = db w \<and>
   (\<forall>r. r \<noteq> existing \<longrightarrow> heap (update_items obj existing items w) r = heap w r) \<and>
   map fst (heap (update_items obj existing items w) existing) = map fst (heap w existing)"
proof (induction items arbitrary: w)
  case Nil
  show ?case by simp
next
  case (Cons kv items)
  obtain k v where kv: "kv = (k, v)" by (cases kv)
  have k: "k \<in> fst ` set (heap w existing)" using Cons.prems kv by auto
  let ?w' = "setattr w existing k (getattr w obj k)"
  have keys: "map fst (heap ?w' existing) = map fst (heap w existing)"
    using k by (rule keys_setattr)
  then have "fst ` set (heap ?w' existing) = fst ` set (heap w existing)"
    by (metis list.set_map)
  then have sub: "fst ` set items \<subseteq> fst ` set (heap ?w' existing)"
    using Cons.prems by auto
  have sub0: "fst ` set items \<subseteq> fst ` set (heap w existing)"
    using Cons.prems by auto
  show ?case
  proof (cases "truthy (getattr w obj k) \<and> \<not> py_eq (getattr w obj k) v")
    case True
    then show ?thesis
      using Cons.IH [OF sub] keys by (simp add: kv Let_def db_setattr heap_setattr_other)
  next
    case False
    then show ?thesis
      using Cons.IH [OF sub0] by (auto simp add: kv Let_def)
  qed
qed

lemma update_items_getattr:
  "distinct (map fst items) \<Longrightarrow>
   \<forall>(k, v) \<in> set items. getattr w existing k = v \<Longrightarrow>
   getattr (update_items obj existing items w) existing k =
     (if k \<in> fst ` set items \<and> truthy (getattr w obj k)
         \<and> \<not> py_eq (getattr w obj k) (getattr w existing k)
      then getattr w obj k else getattr w existing k)"
proof (induction items arbitrary: w)
  case Nil
  show ?case by simp
next
  case (Cons kv items)
  obtain k0 v0 where kv: "kv = (k0, v0)" by (cases kv)
  have d: "distinct (map fst items)" and k0: "k0 \<notin> fst ` set items"
    using Cons.prems(1) kv by auto
  have v0: "getattr w existing k0 = v0" using Cons.prems(2) kv by auto
  have rest: "\<forall>(k, v) \<in> set items. getattr w existing k = v"
    using Cons.prems(2) by auto
  let ?w' = "setattr w existing k0 (getattr w obj k0)"
  have rest': "\<forall>(k, v) \<in> set items. getattr ?w' existing k = v"
  proof clarify
    fix k v assume kvin: "(k, v) \<in> set items"
    then have "k \<noteq> k0" using k0 by force
    moreover have "getattr w existing k = v" using rest kvin by auto
    ultimately show "getattr ?w' existing k = v" by (simp add: getattr_setattr)
  qed
  show ?case
  proof (cases "truthy (getattr w obj k0) \<and> \<not> py_eq (getattr w obj k0) v0")
    case upd: True
    have step: "update_items obj existing ((k0, v0) # items) w =
                  update_items obj existing items ?w'"
      using upd by (simp add: Let_def)
    note IH = Cons.IH [OF d rest']
    show ?thesis
    proof (cases "k = k0")
      case True
      have "getattr (update_items obj existing items ?w') existing k0 = getattr ?w' existing k0"
        using IH k0 True by simp
      also have "\<dots> = getattr w obj k0" by (simp add: getattr_setattr)
      finally show ?thesis unfolding kv step using True upd v0 by simp
    next
      case False
      have g1: "getattr ?w' obj k = getattr w obj k"
        and g2: "getattr ?w' existing k = getattr w existing k"
        using False by (simp_all add: getattr_setattr)
      show ?thesis unfolding kv step using IH False unfolding g1 g2 by simp
    qed
  next
    case noupd: False
    have step: "update_items obj existing ((k0, v0) # items) w =
                  update_items obj existing items w"
      using noupd by (auto simp add: Let_def)
    note IH = Cons.IH [OF d rest]
    show ?thesis
    proof (cases "k = k0")
      case True
      have "getattr (update_items obj existing items w) existing k0 = getattr w existing k0"
        using IH k0 True by simp
      then show ?thesis unfolding kv step using True noupd v0 by auto
    next
      case False
      show ?thesis unfolding kv step using IH False by simp
    qed
  qed
qed

lemma attr_dict_keys:
  "fst ` set (attr_dict d) = {k \<in> fst ` set d. \<not> startswith k ''_sa''}"
  by (force simp: attr_dict_def)

lemma attr_dict_distinct: "distinct (map fst d) \<Longrightarrow> distinct (map fst (attr_dict d))"
  by (simp add: attr_dict_def distinct_map_filter)

lemma attr_dict_values:
  "distinct (map fst (heap w r)) \<Longrightarrow> \<forall>(k, v) \<in> set (attr_dict (heap w r)). getattr w r k = v"
  by (auto simp: attr_dict_def getattr_def)

section \<open>The claims\<close>

lemmas mode_defs =
  SESSION_PERSISTENCE_COMMIT_def SESSION_PERSISTENCE_FLUSH_def SESSION_PERSISTENCE_MERGE_def
  SESSION_PERSISTENCE_CHECK_AND_MERGE_def SESSION_PERSISTENCE_GET_OR_ADD_def
  SESSION_PERSISTENCE_ADD_def

lemmas call_defs =
  session_merge_def session_flush_def session_commit_def session_add_def

lemmas example_defs =
  example_session_def Person_def empty_world_def ann_world_def bob_kwargs_def
  example_meta_def no_session_meta_def track_def Account_def two_rows_world_def
  candidate_kwargs_def salary_world_def salary_kwargs_def

lemmas run_defs =
  create_def find_existing_def update_existing_def call_defs getattr_def setattr_def
  attr_dict_def startswith_def py_in_def mode_defs Let_def

text \<open>
  C1 (amended). When no session is configured, \<^verbatim>\<open>_create\<close> first calls the model
  constructor with the supplied arguments and only then, when the constructor has
  returned, raises the runtime error (an exception of the constructor passes through
  instead): the run ends in the world the constructor left, with the constructor's call
  recorded and nothing else.
\<close>

theorem C1_construct_before_error:
  assumes "sqlalchemy_session meta = None"
  shows "create meta model_class args kwargs (w, tr) =
           ((case fst (construct model_class args kwargs w) of
               Inl e \<Rightarrow> Inl e
             | Inr obj \<Rightarrow> Inl (RuntimeError ''No session provided.'')),
            (snd (construct model_class args kwargs w), tr @ [Construct]))"
  using assms by (simp add: create_def Let_def split: prod.splits sum.splits)

text \<open>C1 (amended) on the example: a Person built with no session configured.\<close>

theorem C1_construct_before_error_witness:
  "create (no_session_meta PNone) Person [] bob_kwargs (empty_world, []) =
     (Inl (RuntimeError ''No session provided.''),
      (\<lparr>heap = (\<lambda>_. [])(0 := bob_kwargs), db = ([], 1)\<rparr>, [Construct]))"
proof -
  have h: "sqlalchemy_session (no_session_meta PNone) = None"
    by (simp add: no_session_meta_def)
  from C1_construct_before_error [OF h, of Person "[]" bob_kwargs empty_world "[]"]
  show ?thesis by (simp add: Person_def empty_world_def)
qed

text \<open>
  C1 as stated fails: with no session configured the error is raised, but the
  constructor has been called before it, and the new object is in the store.
\<close>

theorem C1_counterexample:
  "sqlalchemy_session (no_session_meta PNone) = None \<and>
   create (no_session_meta PNone) Person [] bob_kwargs (empty_world, []) \<noteq>
     (Inl (RuntimeError ''No session provided.''), (empty_world, [])) \<and>
   snd (snd (create (no_session_meta PNone) Person [] bob_kwargs (empty_world, []))) = [Construct] \<and>
   heap (fst (snd (create (no_session_meta PNone) Person [] bob_kwargs (empty_world, [])))) 0
     = bob_kwargs \<and>
   heap empty_world 0 = []"
  by (simp add: run_defs example_defs)

text \<open>
  C2 (amended). Whatever the options say (any persistence mode, \<^verbatim>\<open>None\<close> included, any
  \<^verbatim>\<open>force_flush\<close>), \<^verbatim>\<open>_create\<close> without a session makes no call of the session (no
  query, merge, flush, commit or add) and never returns an object; it raises the runtime
  error when the model constructor returns, and the constructor's own exception when
  the constructor raises.
\<close>

theorem C2_no_session_raises:
  assumes "sqlalchemy_session meta = None"
  shows "session_calls (snd (snd (create meta model_class args kwargs st))) = session_calls (snd st)
     \<and> (\<forall>r. fst (create meta model_class args kwargs st) \<noteq> Inr r)
     \<and> (\<forall>obj. fst (construct model_class args kwargs (fst st)) = Inr obj \<longrightarrow>
           fst (create meta model_class args kwargs st)
             = Inl (RuntimeError ''No session provided.''))
     \<and> (\<forall>e. fst (construct model_class args kwargs (fst st)) = Inl e \<longrightarrow>
           fst (create meta model_class args kwargs st) = Inl e)"
  using assms
  by (auto simp: create_def Let_def session_calls_def split: prod.splits sum.splits)

text \<open>C2 (amended) on the example, in mode \<^verbatim>\<open>commit\<close>: a run where the constructor returns.\<close>

theorem C2_no_session_raises_witness:
  "fst (create (no_session_meta (PStr ''commit'')) Person [] bob_kwargs (ann_world, [Flush]))
     = Inl (RuntimeError ''No session provided.'') \<and>
   session_calls
     (snd (snd (create (no_session_meta (PStr ''commit'')) Person [] bob_kwargs
        (ann_world, [Flush])))) = [Flush]"
proof -
  have h: "sqlalchemy_session (no_session_meta (PStr ''commit'')) = None"
    by (simp add: no_session_meta_def)
  have c: "fst (construct Person [] bob_kwargs (fst (ann_world, [Flush]))) = Inr 1"
    by (simp add: Person_def ann_world_def)
  note t = C2_no_session_raises [OF h, of Person "[]" bob_kwargs "(ann_world, [Flush])"]
  from t c have "fst (create (no_session_meta (PStr ''commit'')) Person [] bob_kwargs
                       (ann_world, [Flush])) = Inl (RuntimeError ''No session provided.'')"
    by blast
  moreover from t have "session_calls
     (snd (snd (create (no_session_meta (PStr ''commit'')) Person [] bob_kwargs
        (ann_world, [Flush])))) = session_calls (snd (ann_world, [Flush]))"
    by blast
  ultimately show ?thesis by (simp add: session_calls_def)
qed

text \<open>
  C2 as stated fails: with no session configured and a positional argument, which the
  constructor rejects, the run ends in the constructor's type error, not in the runtime
  error.
\<close>

theorem C2_counterexample:
  "sqlalchemy_session (no_session_meta (PStr ''commit'')) = None \<and>
   fst (create (no_session_meta (PStr ''commit'')) Person [PStr ''Bob''] [] (empty_world, []))
     = Inl (TypeError ''__init__() takes 1 positional argument but 2 were given'') \<and>
   fst (create (no_session_meta (PStr ''commit'')) Person [PStr ''Bob''] [] (empty_world, []))
     \<noteq> Inl (RuntimeError ''No session provided.'')"
  by (simp add: create_def Let_def no_session_meta_def Person_def empty_world_def)

text \<open>
  C3. With \<^verbatim>\<open>force_flush\<close> set, \<^verbatim>\<open>_create\<close> gives the same result, the same session calls
  and the same final world as with the mode \<^verbatim>\<open>flush\<close> configured and the flag off,
  whatever mode was configured.
\<close>

theorem C3_force_flush_supersedes:
  assumes "force_flush meta"
  shows "create meta model_class args kwargs st =
           create (meta\<lparr>sqlalchemy_session_persistence := SESSION_PERSISTENCE_FLUSH,
                         force_flush := False\<rparr>) model_class args kwargs st"
  using assms
  by (simp add: create_def mode_defs py_in_def Let_def split: prod.splits option.splits sum.splits)

text \<open>C3 on the example: mode \<^verbatim>\<open>merge\<close> with the flag set runs as mode \<^verbatim>\<open>flush\<close>.\<close>

theorem C3_force_flush_supersedes_witness:
  "create ((example_meta (PStr ''merge'') False)\<lparr>force_flush := True\<rparr>) Person [] bob_kwargs
      (ann_world, []) =
   create (example_meta (PStr ''flush'') False) Person [] bob_kwargs (ann_world, [])"
proof -
  have h: "force_flush ((example_meta (PStr ''merge'') False)\<lparr>force_flush := True\<rparr>)"
    by simp
  from C3_force_flush_supersedes [OF h, of Person "[]" bob_kwargs "(ann_world, [])"]
  show ?thesis by (simp add: example_meta_def SESSION_PERSISTENCE_FLUSH_def)
qed

text \<open>
  C4 (amended). In mode \<^verbatim>\<open>check\<close> with the update-existing flag set, when the lookup
  finds a row: \<^verbatim>\<open>update_existing\<close> gives the row back with every attribute \<open>k\<close> of its
  \<^verbatim>\<open>__dict__\<close> whose name does not start with \<^verbatim>\<open>_sa\<close> (the code's test for an internal
  attribute, whatever the attribute holds) set to the new instance's value when that
  value is truthy and differs from the row's, and left as it was otherwise (so a falsy
  new value never overwrites, and an attribute whose name starts with \<^verbatim>\<open>_sa\<close> is never
  overwritten); the row's keys, every other object and the database are untouched. The row is then merged and the session flushed, these two
  being the only writes of the run, and what the merge gives back for the row is
  returned (the row itself when the session already tracks it).
\<close>

theorem C4_check_found_update:
  assumes "sqlalchemy_session meta = Some session"
    and "\<not> force_flush meta"
    and "sqlalchemy_session_persistence meta = PStr ''check''"
    and "sqlalchemy_update_existing meta"
    and "construct model_class args kwargs w = (Inr obj, w1)"
    and "find_existing session obj model_class (w1, tr @ [Construct]) = (Some existing, (w2, tr2))"
    and "distinct (map fst (heap w2 existing))"
    and "update_existing session obj existing (w2, tr2) = (updated, (w3, tr3))"
  shows "updated = existing \<and> tr3 = tr2 \<and> writes tr2 = writes tr
     \<and> (\<forall>k. getattr w3 existing k =
            (if k \<in> fst ` set (heap w2 existing) \<and> \<not> startswith k ''_sa''
                \<and> truthy (getattr w2 obj k)
                \<and> \<not> py_eq (getattr w2 obj k) (getattr w2 existing k)
             then getattr w2 obj k else getattr w2 existing k))
     \<and> map fst (heap w3 existing) = map fst (heap w2 existing)
     \<and> (\<forall>r. r \<noteq> existing \<longrightarrow> heap w3 r = heap w2 r) \<and> db w3 = db w2
     \<and> create meta model_class args kwargs (w, tr) =
          (Inr (fst (merge session existing w3)),
           (flush session (snd (merge session existing w3)), tr2 @ [Merge existing, Flush]))"
proof -
  let ?items = "attr_dict (heap w2 existing)"
  have u: "updated = existing" and t: "tr3 = tr2"
    and w3: "w3 = update_items obj existing ?items w2"
    using assms(8) by (auto simp: update_existing_def)
  have wr: "writes tr2 = writes tr"
    using find_existing_writes [OF assms(6)] by (simp add: writes_def)
  have d: "distinct (map fst ?items)"
    using assms(7) by (rule attr_dict_distinct)
  have vals: "\<forall>(k, v) \<in> set ?items. getattr w2 existing k = v"
    using assms(7) by (rule attr_dict_values)
  have sub: "fst ` set ?items \<subseteq> fst ` set (heap w2 existing)"
    by (auto simp: attr_dict_keys)
  have get: "getattr w3 existing k =
            (if k \<in> fst ` set (heap w2 existing) \<and> \<not> startswith k ''_sa''
                \<and> truthy (getattr w2 obj k)
                \<and> \<not> py_eq (getattr w2 obj k) (getattr w2 existing k)
             then getattr w2 obj k else getattr w2 existing k)" for k
    unfolding w3 update_items_getattr [OF d vals] attr_dict_keys by simp
  note frame = update_items_frame [OF sub, of obj, folded w3]
  have cr: "create meta model_class args kwargs (w, tr) =
          (Inr (fst (merge session existing w3)),
           (flush session (snd (merge session existing w3)), tr2 @ [Merge existing, Flush]))"
    using assms(1-6) assms(8) u t
    by (simp add: create_def Let_def py_in_def mode_defs session_merge_def session_flush_def
          split: prod.splits)
  from u t wr get frame cr show ?thesis by simp
qed

text \<open>
  C4 on the example: Ann's row is found by Bob's email; the name is overwritten, the
  empty new nick does not overwrite \<^verbatim>\<open>annie\<close>, the internal attribute stays.
\<close>

theorem C4_check_found_update_witness:
  "fst (create (example_meta (PStr ''check'') True) Person [] bob_kwargs (ann_world, [])) = Inr 0
   \<and> snd (snd (create (example_meta (PStr ''check'') True) Person [] bob_kwargs (ann_world, [])))
       = [Construct, Query ''email'' (PStr ''a@x.com''), Merge 0, Flush]
   \<and> getattr (fst (snd (update_existing example_session 1 0
         (snd (construct Person [] bob_kwargs ann_world),
          [Construct, Query ''email'' (PStr ''a@x.com'')])))) 0 ''name'' = PStr ''Bob''
   \<and> getattr (fst (snd (update_existing example_session 1 0
         (snd (construct Person [] bob_kwargs ann_world),
          [Construct, Query ''email'' (PStr ''a@x.com'')])))) 0 ''nick'' = PStr ''annie''
   \<and> getattr (fst (snd (update_existing example_session 1 0
         (snd (construct Person [] bob_kwargs ann_world),
          [Construct, Query ''email'' (PStr ''a@x.com'')])))) 0 ''_sa_instance_state'' = PObj 0"
proof -
  let ?meta = "example_meta (PStr ''check'') True"
  let ?w1 = "snd (construct Person [] bob_kwargs ann_world)"
  let ?tr2 = "[Construct, Query ''email'' (PStr ''a@x.com'')]"
  let ?w3 = "fst (snd (update_existing example_session 1 0 (?w1, ?tr2)))"
  have h1: "sqlalchemy_session ?meta = Some example_session"
    and h2: "\<not> force_flush ?meta"
    and h3: "sqlalchemy_session_persistence ?meta = PStr ''check''"
    and h4: "sqlalchemy_update_existing ?meta"
    by (simp_all add: example_meta_def)
  have h5: "construct Person [] bob_kwargs ann_world = (Inr 1, ?w1)"
    by (simp add: Person_def ann_world_def)
  have h6: "find_existing example_session 1 Person (?w1, [] @ [Construct]) = (Some 0, (?w1, ?tr2))"
    by (simp add: find_existing_def getattr_def Let_def example_defs)
  have h7: "distinct (map fst (heap ?w1 0))"
    by (simp add: example_defs)
  have h8: "update_existing example_session 1 0 (?w1, ?tr2) = (0, (?w3, ?tr2))"
    by (simp add: update_existing_def)
  note t = C4_check_found_update [OF h1 h2 h3 h4 h5 h6 h7 h8]
  have e1: "heap ?w1 0 = [(''_sa_instance_state'', PObj 0), (''name'', PStr ''Ann''),
         (''email'', PStr ''a@x.com''), (''nick'', PStr ''annie'')]"
    and e2: "heap ?w1 1 = bob_kwargs"
    by (simp_all add: Person_def ann_world_def)
  have g: "getattr ?w1 (Suc 0) ''name'' = PStr ''Bob''" "getattr ?w1 0 ''name'' = PStr ''Ann''"
      "getattr ?w1 (Suc 0) ''nick'' = PStr []" "getattr ?w1 0 ''nick'' = PStr ''annie''"
      "getattr ?w1 0 ''_sa_instance_state'' = PObj 0"
    by (simp_all add: getattr_def Person_def ann_world_def bob_kwargs_def)
  from t have a: "\<forall>k. getattr ?w3 0 k =
            (if k \<in> fst ` set (heap ?w1 0) \<and> \<not> startswith k ''_sa''
                \<and> truthy (getattr ?w1 1 k)
                \<and> \<not> py_eq (getattr ?w1 1 k) (getattr ?w1 0 k)
             then getattr ?w1 1 k else getattr ?w1 0 k)"
    by blast
  have n1: "getattr ?w3 0 ''name'' = PStr ''Bob''"
    using a [rule_format, of "''name''"] by (simp add: g e1 startswith_def)
  have n2: "getattr ?w3 0 ''nick'' = PStr ''annie''"
    using a [rule_format, of "''nick''"] by (simp add: g)
  have n3: "getattr ?w3 0 ''_sa_instance_state'' = PObj 0"
    using a [rule_format, of "''_sa_instance_state''"] by (simp add: g startswith_def)
  from t have c: "create ?meta Person [] bob_kwargs (ann_world, []) =
          (Inr (fst (merge example_session 0 ?w3)),
           (flush example_session (snd (merge example_session 0 ?w3)), ?tr2 @ [Merge 0, Flush]))"
    by blast
  have m: "fst (merge example_session 0 ?w3) = 0"
    by (simp add: example_session_def)
  from c m n1 n2 n3 show ?thesis by simp
qed

text \<open>
  C4 as stated fails: \<^verbatim>\<open>_salary\<close> is an attribute of the found row that is not session
  metadata, the new instance's value for it is truthy and differs, and yet the row keeps
  its old value, because the name starts with \<^verbatim>\<open>_sa\<close>.
\<close>

theorem C4_counterexample:
  "fst (create (example_meta (PStr ''check'') True) Person [] salary_kwargs (salary_world, []))
     = Inr 0
   \<and> getattr salary_world 0 ''_salary'' = PInt 100
   \<and> getattr (snd (construct Person [] salary_kwargs salary_world)) 1 ''_salary'' = PInt 200
   \<and> truthy (PInt 200) \<and> \<not> py_eq (PInt 200) (PInt 100)
   \<and> getattr
        (fst (snd (create (example_meta (PStr ''check'') True) Person [] salary_kwargs
                     (salary_world, []))))
        0 ''_salary'' = PInt 100"
  by (simp add: run_defs example_defs)

text \<open>
  C5. In mode \<^verbatim>\<open>check\<close> with the update-existing flag off, when the lookup finds a row,
  \<^verbatim>\<open>_create\<close> returns that row and stops in the very state the lookup left: nothing is
  written to the row, and the run has made no merge, flush, commit or add, whatever the
  attributes of the new instance are.
\<close>

theorem C5_check_found_no_update:
  assumes "sqlalchemy_session meta = Some session"
    and "\<not> force_flush meta"
    and "sqlalchemy_session_persistence meta = PStr ''check''"
    and "\<not> sqlalchemy_update_existing meta"
    and "construct model_class args kwargs w = (Inr obj, w1)"
    and "find_existing session obj model_class (w1, tr @ [Construct]) = (Some existing, st2)"
  shows "create meta model_class args kwargs (w, tr) = (Inr existing, st2)
         \<and> writes (snd st2) = writes tr"
proof -
  have "create meta model_class args kwargs (w, tr) = (Inr existing, st2)"
    using assms by (simp add: create_def Let_def py_in_def mode_defs)
  moreover have "writes (snd st2) = writes tr"
    using find_existing_writes [OF assms(6)] by (simp add: writes_def)
  ultimately show ?thesis by simp
qed

text \<open>C5 on the example: Ann's row is returned as it was, though Bob's name differs.\<close>

theorem C5_check_found_no_update_witness:
  "create (example_meta (PStr ''check'') False) Person [] bob_kwargs (ann_world, []) =
     (Inr 0, (snd (construct Person [] bob_kwargs ann_world),
              [Construct, Query ''email'' (PStr ''a@x.com'')]))
   \<and> heap (snd (construct Person [] bob_kwargs ann_world)) 0 = heap ann_world 0
   \<and> getattr ann_world 0 ''name'' = PStr ''Ann''
   \<and> getattr (snd (construct Person [] bob_kwargs ann_world)) 1 ''name'' = PStr ''Bob''"
proof -
  let ?meta = "example_meta (PStr ''check'') False"
  let ?w1 = "snd (construct Person [] bob_kwargs ann_world)"
  have h1: "sqlalchemy_session ?meta = Some example_session"
    and h2: "\<not> force_flush ?meta"
    and h3: "sqlalchemy_session_persistence ?meta = PStr ''check''"
    and h4: "\<not> sqlalchemy_update_existing ?meta"
    by (simp_all add: example_meta_def)
  have h5: "construct Person [] bob_kwargs ann_world = (Inr 1, ?w1)"
    by (simp add: Person_def ann_world_def)
  have h6: "find_existing example_session 1 Person (?w1, [] @ [Construct]) =
              (Some 0, (?w1, [Construct, Query ''email'' (PStr ''a@x.com'')]))"
    by (simp add: find_existing_def getattr_def Let_def example_defs)
  have h7: "heap ?w1 0 = heap ann_world 0
            \<and> getattr ann_world 0 ''name'' = PStr ''Ann''
            \<and> getattr ?w1 1 ''name'' = PStr ''Bob''"
    by (simp add: getattr_def example_defs)
  from C5_check_found_no_update [OF h1 h2 h3 h4 h5 h6] h7 show ?thesis by simp
qed

text \<open>
  C6. In mode \<^verbatim>\<open>get\<close> the lookup makes no write. If it finds a row, \<^verbatim>\<open>_create\<close> merges
  that row and returns that very row, and the merge is the only write (the new instance
  is neither added nor committed); if it finds none, \<^verbatim>\<open>_create\<close> adds the new instance,
  commits, and returns the new instance.
\<close>

theorem C6_get_or_add:
  assumes "sqlalchemy_session meta = Some session"
    and "\<not> force_flush meta"
    and "sqlalchemy_session_persistence meta = PStr ''get''"
    and "construct model_class args kwargs w = (Inr obj, w1)"
    and "find_existing session obj model_class (w1, tr @ [Construct]) = (found, (w2, tr2))"
  shows "writes tr2 = writes tr \<and>
         (case found of
            Some existing \<Rightarrow>
              create meta model_class args kwargs (w, tr) =
                (Inr existing, (snd (merge session existing w2), tr2 @ [Merge existing]))
          | None \<Rightarrow>
              create meta model_class args kwargs (w, tr) =
                (Inr obj, (commit session (add session obj w2), tr2 @ [Add obj, Commit])))"
proof -
  have "writes tr2 = writes tr"
    using find_existing_writes [OF assms(5)] by (simp add: writes_def)
  moreover have "case found of
            Some existing \<Rightarrow>
              create meta model_class args kwargs (w, tr) =
                (Inr existing, (snd (merge session existing w2), tr2 @ [Merge existing]))
          | None \<Rightarrow>
              create meta model_class args kwargs (w, tr) =
                (Inr obj, (commit session (add session obj w2), tr2 @ [Add obj, Commit]))"
    using assms
    by (simp add: create_def Let_def py_in_def mode_defs call_defs split: option.splits prod.splits)
  ultimately show ?thesis by simp
qed

text \<open>
  C6 on the example, the two calls of the specification's scenario in reverse: a call
  that finds Ann's row, and a call on the empty world.
\<close>

theorem C6_get_or_add_witness:
  "create (example_meta (PStr ''get'') False) Person [] bob_kwargs (ann_world, []) =
     (Inr 0, (snd (construct Person [] bob_kwargs ann_world),
              [Construct, Query ''email'' (PStr ''a@x.com''), Merge 0]))
   \<and> create (example_meta (PStr ''get'') False) Person [] bob_kwargs (empty_world, []) =
     (Inr 0, (track 0 (snd (construct Person [] bob_kwargs empty_world)),
              [Construct, Query ''email'' (PStr ''a@x.com''), Add 0, Commit]))"
proof -
  let ?meta = "example_meta (PStr ''get'') False"
  let ?w1 = "snd (construct Person [] bob_kwargs ann_world)"
  let ?v1 = "snd (construct Person [] bob_kwargs empty_world)"
  have h1: "sqlalchemy_session ?meta = Some example_session"
    and h2: "\<not> force_flush ?meta"
    and h3: "sqlalchemy_session_persistence ?meta = PStr ''get''"
    by (simp_all add: example_meta_def)
  have h4: "construct Person [] bob_kwargs ann_world = (Inr 1, ?w1)"
    by (simp add: Person_def ann_world_def)
  have h5: "find_existing example_session 1 Person (?w1, [] @ [Construct]) =
              (Some 0, (?w1, [Construct, Query ''email'' (PStr ''a@x.com'')]))"
    by (simp add: find_existing_def getattr_def Let_def example_defs)
  have g4: "construct Person [] bob_kwargs empty_world = (Inr 0, ?v1)"
    by (simp add: Person_def empty_world_def)
  have g5: "find_existing example_session 0 Person (?v1, [] @ [Construct]) =
              (None, (?v1, [Construct, Query ''email'' (PStr ''a@x.com'')]))"
    by (simp add: find_existing_def getattr_def Let_def example_defs)
  have m: "snd (merge example_session 0 ?w1) = ?w1"
    by (simp add: example_defs)
  have a: "commit example_session (add example_session 0 ?v1) = track 0 ?v1"
    by (simp add: example_session_def)
  from C6_get_or_add [OF h1 h2 h3 h4 h5] C6_get_or_add [OF h1 h2 h3 g4 g5] m a
  show ?thesis by simp
qed

text \<open>
  C7 (amended). \<^verbatim>\<open>find_existing\<close> is the scan \<open>first_hit\<close> over the columns of the unique
  constraints, taken constraint after constraint in the order in which iterating over
  the set \<^verbatim>\<open>__table__.constraints\<close> gives them, and column after column in declared order.
  With a session whose queries leave the world as it is, this says: of the columns that
  are not skipped (truthy candidate value, attribute on the class) the queries are asked
  in order up to and including the first that gives a row, which is returned; when none
  gives a row all are asked and the result is \<^verbatim>\<open>None\<close>. When the table declares at most
  one unique constraint, the order of the scan is the schema-declaration order.
\<close>

theorem C7_find_existing_first_hit:
  "find_existing session obj model_cls st =
     first_hit session obj model_cls (unique_columns model_cls) st
   \<and> ((\<forall>c k v w'. snd (query_first session c k v w') = w') \<longrightarrow>
        find_existing session obj model_cls (w, tr) =
          (case dropWhile (misses session w obj model_cls)
                  (eligible w obj model_cls (unique_columns model_cls)) of
             [] \<Rightarrow>
               (None,
                (w, tr @ map (\<lambda>c. Query c (getattr w obj c))
                          (eligible w obj model_cls (unique_columns model_cls))))
           | c # _ \<Rightarrow>
               (fst (query_first session (cls_name model_cls) c (getattr w obj c) w),
                (w, tr @ map (\<lambda>c. Query c (getattr w obj c))
                          (takeWhile (misses session w obj model_cls)
                             (eligible w obj model_cls (unique_columns model_cls)) @ [c])))))
   \<and> (wf_model_class model_cls
        \<and> length (filter is_UniqueConstraint (declared_constraints model_cls)) \<le> 1 \<longrightarrow>
        unique_columns model_cls = declared_unique_columns model_cls)"
proof -
  have eq: "find_existing session obj model_cls s =
              first_hit session obj model_cls (unique_columns model_cls) s" for s
    by (simp add: find_existing_def unique_columns_def find_in_constraints_first_hit)
  show ?thesis
  proof (intro conjI impI)
    show "find_existing session obj model_cls st =
            first_hit session obj model_cls (unique_columns model_cls) st"
      by (rule eq)
  next
    assume ro: "\<forall>c k v w'. snd (query_first session c k v w') = w'"
    then have ro': "\<And>c k v w'. snd (query_first session c k v w') = w'" by blast
    show "find_existing session obj model_cls (w, tr) =
          (case dropWhile (misses session w obj model_cls)
                  (eligible w obj model_cls (unique_columns model_cls)) of
             [] \<Rightarrow>
               (None,
                (w, tr @ map (\<lambda>c. Query c (getattr w obj c))
                          (eligible w obj model_cls (unique_columns model_cls))))
           | c # _ \<Rightarrow>
               (fst (query_first session (cls_name model_cls) c (getattr w obj c) w),
                (w, tr @ map (\<lambda>c. Query c (getattr w obj c))
                          (takeWhile (misses session w obj model_cls)
                             (eligible w obj model_cls (unique_columns model_cls)) @ [c]))))"
      unfolding eq by (rule first_hit_read_only [OF ro'])
  next
    assume "wf_model_class model_cls
        \<and> length (filter is_UniqueConstraint (declared_constraints model_cls)) \<le> 1"
    then show "unique_columns model_cls = declared_unique_columns model_cls"
      by (simp add: unique_columns_declared)
  qed
qed

text \<open>
  C7 (amended) on the example. An Account candidate (nick empty, name Bob, email
  c@x.com) in the world of Ann and Bob: the scan goes over email, nick, name; the query
  on email gives no row, nick is skipped for its empty value, the query on name gives
  Bob's row. And Person, with its one unique constraint, is scanned in declared order
  although the set gives the constraints in another order.
\<close>

theorem C7_find_existing_first_hit_witness:
  "find_existing example_session 2 Account
     (snd (construct Account [] (candidate_kwargs ''c@x.com'') two_rows_world), []) =
     (Some 1, (snd (construct Account [] (candidate_kwargs ''c@x.com'') two_rows_world),
               [Query ''email'' (PStr ''c@x.com''), Query ''name'' (PStr ''Bob'')]))
   \<and> unique_columns Account = [''email'', ''nick'', ''name'']
   \<and> unique_columns Person = declared_unique_columns Person
   \<and> table_constraints Person \<noteq> declared_constraints Person"
proof -
  let ?w = "snd (construct Account [] (candidate_kwargs ''c@x.com'') two_rows_world)"
  note t = C7_find_existing_first_hit [of example_session 2 Account "(?w, [])" ?w "[]"]
  note p = C7_find_existing_first_hit [of example_session 2 Person "(?w, [])" ?w "[]"]
  have ro: "\<forall>c k v w'. snd (query_first example_session c k v w') = w'"
    by (simp add: example_session_def)
  have u: "unique_columns Account = [''email'', ''nick'', ''name'']"
    by (simp add: unique_columns_def Account_def Person_def)
  have g: "getattr ?w 2 ''email'' = PStr ''c@x.com''" "getattr ?w 2 ''name'' = PStr ''Bob''"
    by (simp_all add: getattr_def example_defs)
  have e: "eligible ?w 2 Account [''email'', ''nick'', ''name''] = [''email'', ''name'']"
    by (simp add: eligible_def getattr_def example_defs)
  have m1: "misses example_session ?w 2 Account ''email''"
    by (simp add: misses_def getattr_def example_defs)
  have m2: "\<not> misses example_session ?w 2 Account ''name''"
    by (simp add: misses_def getattr_def example_defs)
  have q: "fst (query_first example_session (cls_name Account) ''name''
                 (getattr ?w 2 ''name'') ?w) = Some 1"
    by (simp add: getattr_def example_defs)
  from t ro have "find_existing example_session 2 Account (?w, []) =
          (case dropWhile (misses example_session ?w 2 Account)
                  (eligible ?w 2 Account (unique_columns Account)) of
             [] \<Rightarrow>
               (None,
                (?w, [] @ map (\<lambda>c. Query c (getattr ?w 2 c))
                          (eligible ?w 2 Account (unique_columns Account))))
           | c # _ \<Rightarrow>
               (fst (query_first example_session (cls_name Account) c (getattr ?w 2 c) ?w),
                (?w, [] @ map (\<lambda>c. Query c (getattr ?w 2 c))
                          (takeWhile (misses example_session ?w 2 Account)
                             (eligible ?w 2 Account (unique_columns Account)) @ [c]))))"
    by blast
  then have a: "find_existing example_session 2 Account (?w, []) =
                  (Some 1, (?w, [Query ''email'' (PStr ''c@x.com''), Query ''name'' (PStr ''Bob'')]))"
    unfolding u e using m1 m2 q g by simp
  have wf: "wf_model_class Person
        \<and> length (filter is_UniqueConstraint (declared_constraints Person)) \<le> 1"
    by (simp add: wf_model_class_def Person_def)
  from p wf have b: "unique_columns Person = declared_unique_columns Person"
    by blast
  have c: "table_constraints Person \<noteq> declared_constraints Person"
    by (simp add: Person_def)
  from a u b c show ?thesis by simp
qed

text \<open>
  C7 as stated fails: Account declares the constraint on (nick, name) before the one on
  email, and iterating over the set gives the one on email first. For a candidate with
  Bob's name and Ann's email, \<^verbatim>\<open>find_existing\<close> asks for the email first and returns Ann's
  row; a scan in schema-declaration order asks for the name first and gives Bob's row.
\<close>

theorem C7_counterexample:
  "wf_model_class Account
   \<and> fst (find_existing example_session 2 Account
        (snd (construct Account [] (candidate_kwargs ''a@x.com'') two_rows_world), [])) = Some 0
   \<and> fst (first_hit example_session 2 Account (declared_unique_columns Account)
        (snd (construct Account [] (candidate_kwargs ''a@x.com'') two_rows_world), [])) = Some 1
   \<and> find_existing example_session 2 Account
        (snd (construct Account [] (candidate_kwargs ''a@x.com'') two_rows_world), [])
       \<noteq> first_hit example_session 2 Account (declared_unique_columns Account)
        (snd (construct Account [] (candidate_kwargs ''a@x.com'') two_rows_world), [])"
proof -
  let ?w = "snd (construct Account [] (candidate_kwargs ''a@x.com'') two_rows_world)"
  have wf: "wf_model_class Account"
    by (simp add: wf_model_class_def Account_def Person_def)
  have a: "fst (find_existing example_session 2 Account (?w, [])) = Some 0"
    by (simp add: find_existing_def getattr_def Let_def example_defs)
  have b: "fst (first_hit example_session 2 Account (declared_unique_columns Account) (?w, []))
             = Some 1"
    by (simp add: declared_unique_columns_def getattr_def Let_def example_defs)
  from a b have "find_existing example_session 2 Account (?w, [])
       \<noteq> first_hit example_session 2 Account (declared_unique_columns Account) (?w, [])"
    by auto
  with wf a b show ?thesis by simp
qed

text \<open>
  C8. In mode \<^verbatim>\<open>add\<close>, \<^verbatim>\<open>_create\<close> returns the instance as constructed, and after the
  constructor it makes exactly one call: the session's add of that instance.
\<close>

theorem C8_add_only:
  assumes "sqlalchemy_session meta = Some session"
    and "\<not> force_flush meta"
    and "sqlalchemy_session_persistence meta = PStr ''add''"
    and "construct model_class args kwargs w = (Inr obj, w1)"
  shows "create meta model_class args kwargs (w, tr) =
           (Inr obj, (add session obj w1, tr @ [Construct, Add obj]))
         \<and> session_calls (tr @ [Construct, Add obj]) = session_calls tr @ [Add obj]"
  using assms by (simp add: create_def Let_def py_in_def mode_defs session_add_def session_calls_def)

text \<open>C8 on the example.\<close>

theorem C8_add_only_witness:
  "create (example_meta (PStr ''add'') False) Person [] bob_kwargs (ann_world, []) =
     (Inr 1, (add example_session 1 (snd (construct Person [] bob_kwargs ann_world)),
              [Construct, Add 1]))"
proof -
  have h1: "sqlalchemy_session (example_meta (PStr ''add'') False) = Some example_session"
    and h2: "\<not> force_flush (example_meta (PStr ''add'') False)"
    and h3: "sqlalchemy_session_persistence (example_meta (PStr ''add'') False) = PStr ''add''"
    by (simp_all add: example_meta_def)
  have h4: "construct Person [] bob_kwargs ann_world =
              (Inr 1, snd (construct Person [] bob_kwargs ann_world))"
    by (simp add: Person_def ann_world_def)
  from C8_add_only [OF h1 h2 h3 h4, of "[]"] show ?thesis by simp
qed

text \<open>
  C9. The checker accepts \<^verbatim>\<open>None\<close> and the six mode strings; for every other value it
  raises the type error, whose message starts with the name of the offending class and
  lists the seven legal values.
\<close>

theorem C9_persistence_checker:
  "check_sqlalchemy_session_persistence repr meta v =
     (if v \<in> {PNone, PStr ''commit'', PStr ''flush'', PStr ''merge'', PStr ''check'',
               PStr ''get'', PStr ''add''}
      then Inr ()
      else Inl (TypeError
        (meta @ ''.sqlalchemy_session_persistence must be one of [''
           @ repr PNone @ '', '' @ repr (PStr ''commit'') @ '', '' @ repr (PStr ''flush'')
           @ '', '' @ repr (PStr ''merge'') @ '', '' @ repr (PStr ''check'')
           @ '', '' @ repr (PStr ''get'') @ '', '' @ repr (PStr ''add'')
           @ ''], got '' @ repr v)))"
  by (cases v)
     (auto simp: check_sqlalchemy_session_persistence_def py_in_def
        VALID_SESSION_PERSISTENCE_TYPES_def mode_defs str_list_def)

text \<open>C9 on the example: two legal values and the illegal mode \<^verbatim>\<open>'save'\<close>.\<close>

theorem C9_persistence_checker_witness:
  "check_sqlalchemy_session_persistence example_repr ''PersonFactory'' (PStr ''get'') = Inr () \<and>
   check_sqlalchemy_session_persistence example_repr ''PersonFactory'' PNone = Inr () \<and>
   check_sqlalchemy_session_persistence example_repr ''PersonFactory'' (PStr ''save'') =
     Inl (TypeError (''PersonFactory.sqlalchemy_session_persistence must be one of ''
            @ ''[None, 'commit', 'flush', 'merge', 'check', 'get', 'add'], got 'save'' @ [CHR 0x27]))"
  using C9_persistence_checker [of example_repr "''PersonFactory''" "PStr ''get''"]
        C9_persistence_checker [of example_repr "''PersonFactory''" PNone]
        C9_persistence_checker [of example_repr "''PersonFactory''" "PStr ''save''"]
  by simp

text \<open>
  C10. \<^verbatim>\<open>SESSION_PERSISTENCE_CHECK_AND_MERGE\<close> is the string \<^verbatim>\<open>'check'\<close>; the membership
  test of the check-and-merge branch holds exactly when the mode equals \<^verbatim>\<open>'check'\<close>; and
  \<^verbatim>\<open>_create\<close> is the same function when the test is written as that one comparison.
\<close>

theorem C10_check_test_is_equality:
  "SESSION_PERSISTENCE_CHECK_AND_MERGE = PStr ''check'' \<and>
   py_in mode [PStr ''check'', SESSION_PERSISTENCE_CHECK_AND_MERGE] = py_eq mode (PStr ''check'') \<and>
   create meta model_class args kwargs st = create_by_equality meta model_class args kwargs st"
proof -
  have a: "SESSION_PERSISTENCE_CHECK_AND_MERGE = PStr ''check''"
    by (simp add: SESSION_PERSISTENCE_CHECK_AND_MERGE_def)
  have b: "py_in m [PStr ''check'', SESSION_PERSISTENCE_CHECK_AND_MERGE] = py_eq m (PStr ''check'')"
    for m by (cases m) (auto simp: py_in_def a)
  have c: "create meta model_class args kwargs st = create_by_equality meta model_class args kwargs st"
    unfolding create_def create_by_equality_def b ..
  from a b c show ?thesis by blast
qed

text \<open>C10 on the example.\<close>

theorem C10_check_test_is_equality_witness:
  "create (example_meta (PStr ''check'') False) Person [] bob_kwargs (ann_world, []) =
     create_by_equality (example_meta (PStr ''check'') False) Person [] bob_kwargs (ann_world, [])
   \<and> py_in (PStr ''check'') [PStr ''check'', SESSION_PERSISTENCE_CHECK_AND_MERGE]
   \<and> \<not> py_in (PStr ''get'') [PStr ''check'', SESSION_PERSISTENCE_CHECK_AND_MERGE]"
proof -
  note t1 = C10_check_test_is_equality
          [of "PStr ''check''" "example_meta (PStr ''check'') False" Person "[]" bob_kwargs
              "(ann_world, [])"]
  note t2 = C10_check_test_is_equality
          [of "PStr ''get''" "example_meta (PStr ''check'') False" Person "[]" bob_kwargs
              "(ann_world, [])"]
  from t1 have c: "create (example_meta (PStr ''check'') False) Person [] bob_kwargs (ann_world, [])
      = create_by_equality (example_meta (PStr ''check'') False) Person [] bob_kwargs (ann_world, [])"
    by (rule conjunct2 [THEN conjunct2])
  from t1 have "py_in (PStr ''check'') [PStr ''check'', SESSION_PERSISTENCE_CHECK_AND_MERGE]
                  = py_eq (PStr ''check'') (PStr ''check'')"
    by (rule conjunct2 [THEN conjunct1])
  then have p1: "py_in (PStr ''check'') [PStr ''check'', SESSION_PERSISTENCE_CHECK_AND_MERGE]"
    by simp
  from t2 have "py_in (PStr ''get'') [PStr ''check'', SESSION_PERSISTENCE_CHECK_AND_MERGE]
                  = py_eq (PStr ''get'') (PStr ''check'')"
    by (rule conjunct2 [THEN conjunct1])
  then have p2: "\<not> py_in (PStr ''get'') [PStr ''check'', SESSION_PERSISTENCE_CHECK_AND_MERGE]"
    by simp
  from c p1 p2 show ?thesis by (intro conjI)
qed

end
